theory Spec2Isabelle
  imports Main
begin

section \<open>The expenses hook of \<^verbatim>\<open>use-expenses.ts\<close>\<close>

text \<open>
  The hook \<^verbatim>\<open>useExpenses\<close> calls seven generated data-fetching hooks, hands their
  status fields on, and wraps the five triggers in action functions that show toasts.

  Everything an action does is observable as an event: a request handed to a generated
  trigger, a toast, or a browser call. An action is therefore modelled as a function
  that returns the list of events in the order the source performs them, together with
  the way the returned promise settles: \<open>Inl e\<close> for a promise rejected with \<open>e\<close>,
  \<open>Inr v\<close> for a promise resolved with \<open>v\<close>.

  The type variable \<open>'v\<close> stands for the values the hook only passes along (the DTOs of
  \<^verbatim>\<open>_types/expenses\<close> and the payloads of the server), \<open>'f\<close> for the browser's
  \<^verbatim>\<open>File\<close>, \<open>'b\<close> for its \<^verbatim>\<open>Blob\<close>, \<open>'r\<close> for the \<^verbatim>\<open>refetch\<close> handle.
  Strings are lists of code units; every code unit of the source's literals is below 256.
\<close>

subsection \<open>Values\<close>

text \<open>An error object, as far as the source reads it: \<^verbatim>\<open>err.message\<close>.\<close>

record js_error =
  name :: string
  message :: string

text \<open>
  The response of the create, update and delete mutations; the source reads
  \<^verbatim>\<open>response.data\<close> and nothing else of it.
\<close>

record 'v data_response =
  data :: 'v
  envelope :: 'v

text \<open>
  The response of the import mutation; the source reads \<^verbatim>\<open>data.message\<close>, which
  may be undefined (\<open>None\<close>).
\<close>

record 'v import_response =
  message :: "string option"
  report :: 'v

text \<open>The argument objects the source builds for the triggers.\<close>

record 'v update_arg =
  id :: string
  body :: 'v

record DeleteHotelExpenseDto =
  ids :: "string list"

record 'f import_arg =
  file' :: 'f
  continueOnError :: bool

subsection \<open>Events\<close>

datatype ('v, 'f) request =
    CreateExpense 'v
  | UpdateExpense "'v update_arg"
  | DeleteExpenses DeleteHotelExpenseDto
  | ImportExpenses "'f import_arg"
  | DownloadTemplate

datatype 'b browser_call =
    CreateObjectURL 'b
  | CreateElement string
  | SetHref
  | SetDownload string
  | AppendChild
  | Click
  | RevokeObjectURL
  | Remove

datatype ('v, 'f, 'b) event =
    Request "('v, 'f) request"
  | ToastLoading string
  | ToastSuccess string
  | ToastError string
  | Browser "'b browser_call"

type_synonym ('v, 'f, 'b, 'a) run = "('v, 'f, 'b) event list \<times> (js_error + 'a)"

text \<open>Observations on an event list, used to state the properties.\<close>

fun request_of :: "('v, 'f, 'b) event \<Rightarrow> ('v, 'f) request option" where
  "request_of (Request r) = Some r"
| "request_of _ = None"

definition requests_of :: "('v, 'f, 'b) event list \<Rightarrow> ('v, 'f) request list" where
  "requests_of evs = List.map_filter request_of evs"

fun is_toast :: "('v, 'f, 'b) event \<Rightarrow> bool" where
  "is_toast (ToastLoading _) = True"
| "is_toast (ToastSuccess _) = True"
| "is_toast (ToastError _) = True"
| "is_toast _ = False"


definition toasts_of :: "('v, 'f, 'b) event list \<Rightarrow> ('v, 'f, 'b) event list" where
  "toasts_of evs = filter is_toast evs"





subsection \<open>The generated hooks of \<^verbatim>\<open>_services/expensesApi\<close>\<close>

text \<open>
  The generated hooks are parameters of the model. A query hook yields its status
  object. A mutation hook yields a pair: the trigger and the status object. The trigger
  is given by the way \<^verbatim>\<open>trigger(arg).unwrap()\<close> settles for each argument.
\<close>

record request_state =
  isSuccess :: bool
  isLoading :: bool

record ('d, 'r) query_result = request_state +
  data :: "'d option"
  error :: "js_error option"
  refetch :: 'r

record ('v, 'f, 'b, 'r) expensesApi =
  useGetAllExpensesQuery :: "('v, 'r) query_result"
  useGetExpenseByIdQuery :: "string \<Rightarrow> ('v, 'r) query_result"
  useCreateExpenseMutation :: "('v \<Rightarrow> js_error + 'v data_response) \<times> request_state"
  useUpdateExpenseMutation :: "('v update_arg \<Rightarrow> js_error + 'v data_response) \<times> request_state"
  useDeleteExpensesMutation ::
    "(DeleteHotelExpenseDto \<Rightarrow> js_error + 'v data_response) \<times> request_state"
  useImportExpensesMutation :: "('f import_arg \<Rightarrow> js_error + 'v import_response) \<times> request_state"
  useLazyDownloadExpenseTemplateQuery :: "(js_error + 'b) \<times> request_state"

text \<open>\<^verbatim>\<open>await trigger(arg).unwrap()\<close>: the request is made, and the call settles.\<close>

definition unwrap :: "('v, 'f) request \<Rightarrow> js_error + 'a \<Rightarrow> ('v, 'f, 'b, 'a) run" where
  "unwrap req outcome = ([Request req], outcome)"

text \<open>The rest of an async function body after an \<^verbatim>\<open>await\<close>: it runs on a value only.\<close>

definition then_return :: "('v, 'f, 'b, 'a) run \<Rightarrow> ('a \<Rightarrow> 'c) \<Rightarrow> ('v, 'f, 'b, 'c) run" where
  "then_return r f = (case r of (evs, Inl e) \<Rightarrow> (evs, Inl e) | (evs, Inr v) \<Rightarrow> (evs, Inr (f v)))"

subsection \<open>The helper and the toast library\<close>

text \<open>
  Modelled from the spec: \<^verbatim>\<open>runAndHandleError\<close> of \<^verbatim>\<open>utils/baseQuery\<close> is not among
  the sources. The spec names it the HTTP client's error-normalization helper and rules
  out retries: it runs the given async function once, hands a value on, and rejects
  with the normalised error. The normalisation is a parameter.
\<close>

definition runAndHandleError ::
  "(js_error \<Rightarrow> js_error) \<Rightarrow> ('v, 'f, 'b, 'a) run \<Rightarrow> ('v, 'f, 'b, 'a) run" where
  "runAndHandleError normalise fn =
     (case fn of (evs, Inl e) \<Rightarrow> (evs, Inl (normalise e)) | (evs, Inr v) \<Rightarrow> (evs, Inr v))"


text \<open>
  \<^verbatim>\<open>toast.promise(promise, { loading, success, error })\<close> of the toast library: the
  loading toast at once, then the success toast when the promise resolves or the error
  toast when it rejects. \<^verbatim>\<open>success\<close> is a fixed text or a function of the value.
\<close>

datatype 'a toast_text = Text string | Computed "'a \<Rightarrow> string"

fun render :: "'a toast_text \<Rightarrow> 'a \<Rightarrow> string" where
  "render (Text s) v = s"
| "render (Computed f) v = f v"

record 'a promise_toast =
  loading :: string
  success :: "'a toast_text"
  error :: "js_error \<Rightarrow> string"

definition toast_promise :: "js_error + 'a \<Rightarrow> 'a promise_toast \<Rightarrow> ('v, 'f, 'b) event list" where
  "toast_promise promise opts =
     [ToastLoading (loading opts),
      (case promise of
         Inr v \<Rightarrow> ToastSuccess (render (success opts) v)
       | Inl err \<Rightarrow> ToastError (promise_toast.error opts err))]"

text \<open>JavaScript's \<^verbatim>\<open>a || b\<close> on a string that may be undefined: both
  undefined and the empty string are falsy.\<close>

definition js_or :: "string option \<Rightarrow> string \<Rightarrow> string" where
  "js_or a b = (case a of None \<Rightarrow> b | Some s \<Rightarrow> if s = [] then b else s)"

abbreviation (input) e_acute :: char where
  "e_acute \<equiv> CHR 0xE9"

abbreviation (input) o_acute :: char where
  "o_acute \<equiv> CHR 0xF3"

subsection \<open>The object returned by the hook\<close>

record 'v expense_by_id =
  expense :: "'v option"
  isLoading :: bool
  error :: "js_error option"

record ('v, 'f, 'b, 'r) expenses_hook =
  expensesList :: "'v option"
  expensesError :: "js_error option"
  isLoadingExpenses :: bool
  isSuccessExpenses :: bool
  refetchExpenses :: 'r
  useGetExpenseById :: "string \<Rightarrow> 'v expense_by_id"
  onCreateExpense :: "'v \<Rightarrow> ('v, 'f, 'b, 'v) run"
  onUpdateExpense :: "string \<Rightarrow> 'v \<Rightarrow> ('v, 'f, 'b, 'v) run"
  onDeleteExpenses :: "string list \<Rightarrow> ('v, 'f, 'b, 'v) run"
  onImportExpenses :: "'f \<Rightarrow> bool option \<Rightarrow> ('v, 'f, 'b, 'v import_response) run"
  onDownloadTemplate :: "('v, 'f, 'b, bool) run"
  isSuccessCreateExpense :: bool
  isLoadingCreateExpense :: bool
  isSuccessUpdateExpense :: bool
  isLoadingUpdateExpense :: bool
  isSuccessDeleteExpenses :: bool
  isLoadingDeleteExpenses :: bool
  isSuccessImportExpenses :: bool
  isLoadingImportExpenses :: bool
  isLoadingDownloadTemplate :: bool

subsection \<open>The queries and the action functions\<close>

definition useGetExpenseById ::
  "('v, 'f, 'b, 'r) expensesApi \<Rightarrow> string \<Rightarrow> 'v expense_by_id" where
  "useGetExpenseById api i =
     (let q = useGetExpenseByIdQuery api i
      in \<lparr>expense = query_result.data q,
          expense_by_id.isLoading = request_state.isLoading q,
          expense_by_id.error = query_result.error q\<rparr>)"

definition onCreateExpense ::
  "(js_error \<Rightarrow> js_error) \<Rightarrow> ('v, 'f, 'b, 'r) expensesApi \<Rightarrow> 'v \<Rightarrow> ('v, 'f, 'b, 'v) run" where
  "onCreateExpense normalise api d =
     (let createExpense = fst (useCreateExpenseMutation api);
          promise = runAndHandleError normalise
            (then_return (unwrap (CreateExpense d) (createExpense d))
               (\<lambda>response. data_response.data response))
      in (fst promise @
          toast_promise (snd promise)
            \<lparr>loading = ''Creando gasto...'',
             success = Text (''Gasto creado con '' @ [e_acute] @ ''xito''),
             promise_toast.error = (\<lambda>err. js_error.message err)\<rparr>,
          snd promise))"

definition onUpdateExpense ::
  "(js_error \<Rightarrow> js_error) \<Rightarrow> ('v, 'f, 'b, 'r) expensesApi \<Rightarrow> string \<Rightarrow> 'v \<Rightarrow>
     ('v, 'f, 'b, 'v) run" where
  "onUpdateExpense normalise api i d =
     (let updateExpense = fst (useUpdateExpenseMutation api);
          arg = \<lparr>id = i, body = d\<rparr>;
          promise = runAndHandleError normalise
            (then_return (unwrap (UpdateExpense arg) (updateExpense arg))
               (\<lambda>response. data_response.data response))
      in (fst promise @
          toast_promise (snd promise)
            \<lparr>loading = ''Actualizando gasto...'',
             success = Text ''Gasto actualizado exitosamente'',
             promise_toast.error = (\<lambda>err. js_error.message err)\<rparr>,
          snd promise))"

definition onDeleteExpenses ::
  "(js_error \<Rightarrow> js_error) \<Rightarrow> ('v, 'f, 'b, 'r) expensesApi \<Rightarrow> string list \<Rightarrow>
     ('v, 'f, 'b, 'v) run" where
  "onDeleteExpenses normalise api idl =
     (let deleteExpenses = fst (useDeleteExpensesMutation api);
          deleteDto = \<lparr>ids = idl\<rparr>;
          promise = runAndHandleError normalise
            (then_return (unwrap (DeleteExpenses deleteDto) (deleteExpenses deleteDto))
               (\<lambda>response. data_response.data response))
      in (fst promise @
          toast_promise (snd promise)
            \<lparr>loading = ''Eliminando gastos...'',
             success = Text (''Gastos eliminados con '' @ [e_acute] @ ''xito''),
             promise_toast.error = (\<lambda>err. js_error.message err)\<rparr>,
          snd promise))"

text \<open>
  The second parameter has the default \<^verbatim>\<open>false\<close>: \<open>None\<close> is a call without it.
\<close>

definition onImportExpenses ::
  "(js_error \<Rightarrow> js_error) \<Rightarrow> ('v, 'f, 'b, 'r) expensesApi \<Rightarrow> 'f \<Rightarrow> bool option \<Rightarrow>
     ('v, 'f, 'b, 'v import_response) run" where
  "onImportExpenses normalise api f c =
     (let importExpenses = fst (useImportExpensesMutation api);
          arg = \<lparr>file' = f, continueOnError = (case c of None \<Rightarrow> False | Some b \<Rightarrow> b)\<rparr>;
          promise = runAndHandleError normalise
            (then_return (unwrap (ImportExpenses arg) (importExpenses arg))
               (\<lambda>response. response))
      in (fst promise @
          toast_promise (snd promise)
            \<lparr>loading = ''Importando gastos...'',
             success = Computed (\<lambda>d. js_or (import_response.message d)
               (''Importaci'' @ [o_acute] @ ''n completada con '' @ [e_acute] @ ''xito'')),
             promise_toast.error = (\<lambda>err. js_error.message err)\<rparr>,
          snd promise))"

text \<open>
  The browser calls of the \<^verbatim>\<open>try\<close> block act on a \<^verbatim>\<open>Blob\<close> and a fresh anchor
  element; they are taken to return normally. The success and the error toast replace
  the loading toast (same toast id).
\<close>

definition onDownloadTemplate :: "('v, 'f, 'b, 'r) expensesApi \<Rightarrow> ('v, 'f, 'b, bool) run" where
  "onDownloadTemplate api =
     (let downloadTemplate = fst (useLazyDownloadExpenseTemplateQuery api)
      in case unwrap DownloadTemplate downloadTemplate of
           (evs, Inr blob) \<Rightarrow>
             (ToastLoading ''Descargando plantilla...'' # evs @
              [Browser (CreateObjectURL blob),
               Browser (CreateElement ''a''),
               Browser SetHref,
               Browser (SetDownload ''plantilla_gastos.xlsx''),
               Browser AppendChild,
               Browser Click,
               Browser RevokeObjectURL,
               Browser Remove,
               ToastSuccess (''Plantilla descargada con '' @ [e_acute] @ ''xito'')],
              Inr True)
         | (evs, Inl err) \<Rightarrow>
             (ToastLoading ''Descargando plantilla...'' # evs @
              [ToastError (''Error al descargar: '' @ js_error.message err)],
              Inr False))"

definition useExpenses ::
  "(js_error \<Rightarrow> js_error) \<Rightarrow> ('v, 'f, 'b, 'r) expensesApi \<Rightarrow> ('v, 'f, 'b, 'r) expenses_hook" where
  "useExpenses normalise api =
     (let q = useGetAllExpensesQuery api;
          create_state = snd (useCreateExpenseMutation api);
          update_state = snd (useUpdateExpenseMutation api);
          delete_state = snd (useDeleteExpensesMutation api);
          import_state = snd (useImportExpensesMutation api);
          download_state = snd (useLazyDownloadExpenseTemplateQuery api)
      in \<lparr>expensesList = query_result.data q,
          expensesError = query_result.error q,
          isLoadingExpenses = request_state.isLoading q,
          isSuccessExpenses = request_state.isSuccess q,
          refetchExpenses = query_result.refetch q,
          expenses_hook.useGetExpenseById = useGetExpenseById api,
          expenses_hook.onCreateExpense = onCreateExpense normalise api,
          expenses_hook.onUpdateExpense = onUpdateExpense normalise api,
          expenses_hook.onDeleteExpenses = onDeleteExpenses normalise api,
          expenses_hook.onImportExpenses = onImportExpenses normalise api,
          expenses_hook.onDownloadTemplate = onDownloadTemplate api,
          isSuccessCreateExpense = request_state.isSuccess create_state,
          isLoadingCreateExpense = request_state.isLoading create_state,
          isSuccessUpdateExpense = request_state.isSuccess update_state,
          isLoadingUpdateExpense = request_state.isLoading update_state,
          isSuccessDeleteExpenses = request_state.isSuccess delete_state,
          isLoadingDeleteExpenses = request_state.isLoading delete_state,
          isSuccessImportExpenses = request_state.isSuccess import_state,
          isLoadingImportExpenses = request_state.isLoading import_state,
          isLoadingDownloadTemplate = request_state.isLoading download_state\<rparr>)"

subsection \<open>Sample inputs\<close>

text \<open>
  Concrete hooks on which the properties are evaluated: one whose requests all succeed,
  one whose requests all fail, and one whose import answers with an empty message.
\<close>

definition sample_error :: js_error where
  "sample_error = \<lparr>name = ''Error'', js_error.message = ''sin conexion''\<rparr>"

definition translate :: "js_error \<Rightarrow> js_error" where
  "translate e = e\<lparr>js_error.message := ''Fallo: '' @ js_error.message e\<rparr>"

definition idle :: request_state where
  "idle = \<lparr>isSuccess = False, isLoading = False\<rparr>"

definition loaded :: "nat \<Rightarrow> (nat, unit) query_result" where
  "loaded n = \<lparr>isSuccess = True, isLoading = False, data = Some n, error = None, refetch = ()\<rparr>"

definition working_api :: "(nat, string, string, unit) expensesApi" where
  "working_api =
     \<lparr>useGetAllExpensesQuery = loaded 40,
      useGetExpenseByIdQuery = (\<lambda>i. loaded (length i)),
      useCreateExpenseMutation = ((\<lambda>d. Inr \<lparr>data_response.data = d + 1, envelope = 200\<rparr>), idle),
      useUpdateExpenseMutation =
        ((\<lambda>a. Inr \<lparr>data_response.data = body a, envelope = 200\<rparr>), idle),
      useDeleteExpensesMutation =
        ((\<lambda>dto. Inr \<lparr>data_response.data = length (ids dto), envelope = 200\<rparr>), idle),
      useImportExpensesMutation =
        ((\<lambda>a. Inr \<lparr>import_response.message = Some ''3 gastos importados'', report = 3\<rparr>), idle),
      useLazyDownloadExpenseTemplateQuery = (Inr ''xlsx'', idle)\<rparr>"

definition failing_api :: "(nat, string, string, unit) expensesApi" where
  "failing_api =
     \<lparr>useGetAllExpensesQuery = loaded 40,
      useGetExpenseByIdQuery = (\<lambda>i. loaded (length i)),
      useCreateExpenseMutation = ((\<lambda>d. Inl sample_error), idle),
      useUpdateExpenseMutation = ((\<lambda>a. Inl sample_error), idle),
      useDeleteExpensesMutation = ((\<lambda>dto. Inl sample_error), idle),
      useImportExpensesMutation = ((\<lambda>a. Inl sample_error), idle),
      useLazyDownloadExpenseTemplateQuery = (Inl sample_error, idle)\<rparr>"

definition empty_message_api :: "(nat, string, string, unit) expensesApi" where
  "empty_message_api =
     working_api\<lparr>useImportExpensesMutation :=
       ((\<lambda>a. Inr \<lparr>import_response.message = Some [], report = 0\<rparr>), idle)\<rparr>"

section \<open>What one call of each action does\<close>

text \<open>
  Each action as a case distinction on the way its request settles: the events in order,
  and the settlement of the returned promise.
\<close>

lemma onCreateExpense_run:
  "onCreateExpense normalise api d =
     (case fst (useCreateExpenseMutation api) d of
        Inl e \<Rightarrow>
          ([Request (CreateExpense d), ToastLoading ''Creando gasto...'',
            ToastError (js_error.message (normalise e))], Inl (normalise e))
      | Inr response \<Rightarrow>
          ([Request (CreateExpense d), ToastLoading ''Creando gasto...'',
            ToastSuccess (''Gasto creado con '' @ [e_acute] @ ''xito'')],
           Inr (data_response.data response)))"
  by (simp add: onCreateExpense_def runAndHandleError_def then_return_def unwrap_def
      toast_promise_def Let_def split: sum.splits)

lemma onUpdateExpense_run:
  "onUpdateExpense normalise api i d =
     (case fst (useUpdateExpenseMutation api) \<lparr>id = i, body = d\<rparr> of
        Inl e \<Rightarrow>
          ([Request (UpdateExpense \<lparr>id = i, body = d\<rparr>), ToastLoading ''Actualizando gasto...'',
            ToastError (js_error.message (normalise e))], Inl (normalise e))
      | Inr response \<Rightarrow>
          ([Request (UpdateExpense \<lparr>id = i, body = d\<rparr>), ToastLoading ''Actualizando gasto...'',
            ToastSuccess ''Gasto actualizado exitosamente''],
           Inr (data_response.data response)))"
  by (simp add: onUpdateExpense_def runAndHandleError_def then_return_def unwrap_def
      toast_promise_def Let_def split: sum.splits)

lemma onDeleteExpenses_run:
  "onDeleteExpenses normalise api idl =
     (case fst (useDeleteExpensesMutation api) \<lparr>ids = idl\<rparr> of
        Inl e \<Rightarrow>
          ([Request (DeleteExpenses \<lparr>ids = idl\<rparr>), ToastLoading ''Eliminando gastos...'',
            ToastError (js_error.message (normalise e))], Inl (normalise e))
      | Inr response \<Rightarrow>
          ([Request (DeleteExpenses \<lparr>ids = idl\<rparr>), ToastLoading ''Eliminando gastos...'',
            ToastSuccess (''Gastos eliminados con '' @ [e_acute] @ ''xito'')],
           Inr (data_response.data response)))"
  by (simp add: onDeleteExpenses_def runAndHandleError_def then_return_def unwrap_def
      toast_promise_def Let_def split: sum.splits)

lemma onImportExpenses_run:
  "onImportExpenses normalise api f c =
     (let arg = \<lparr>file' = f, continueOnError = (case c of None \<Rightarrow> False | Some b \<Rightarrow> b)\<rparr>
      in case fst (useImportExpensesMutation api) arg of
        Inl e \<Rightarrow>
          ([Request (ImportExpenses arg), ToastLoading ''Importando gastos...'',
            ToastError (js_error.message (normalise e))], Inl (normalise e))
      | Inr response \<Rightarrow>
          ([Request (ImportExpenses arg), ToastLoading ''Importando gastos...'',
            ToastSuccess (js_or (import_response.message response)
              (''Importaci'' @ [o_acute] @ ''n completada con '' @ [e_acute] @ ''xito''))],
           Inr response))"
  by (simp add: onImportExpenses_def runAndHandleError_def then_return_def unwrap_def
      toast_promise_def Let_def split: sum.splits)

lemma onDownloadTemplate_run:
  "onDownloadTemplate api =
     (case fst (useLazyDownloadExpenseTemplateQuery api) of
        Inl e \<Rightarrow>
          ([ToastLoading ''Descargando plantilla...'', Request DownloadTemplate,
            ToastError (''Error al descargar: '' @ js_error.message e)], Inr False)
      | Inr blob \<Rightarrow>
          ([ToastLoading ''Descargando plantilla...'', Request DownloadTemplate,
            Browser (CreateObjectURL blob), Browser (CreateElement ''a''), Browser SetHref,
            Browser (SetDownload ''plantilla_gastos.xlsx''), Browser AppendChild,
            Browser Click, Browser RevokeObjectURL, Browser Remove,
            ToastSuccess (''Plantilla descargada con '' @ [e_acute] @ ''xito'')], Inr True))"
  by (simp add: onDownloadTemplate_def unwrap_def Let_def split: sum.splits)

section \<open>Properties\<close>







text \<open>
  C3. The object returned by \<^verbatim>\<open>useExpenses\<close> covers the seven operations. Its list
  fields are the data, error, loading flag, success flag and refetch handle of the list
  query; its \<^verbatim>\<open>useGetExpenseById\<close> yields the data, loading flag and error of the
  get-by-id query; its five actions apply the create, update, delete, import and
  template-download trigger respectively and settle by the trigger's outcome. Every
  mutation among them, and the download, has its toasts attached: the loading toast and
  then the success or the error toast.
\<close>

theorem useExpenses_covers_operations:
  "expensesList (useExpenses normalise api) = query_result.data (useGetAllExpensesQuery api) \<and>
   expensesError (useExpenses normalise api) = query_result.error (useGetAllExpensesQuery api) \<and>
   isLoadingExpenses (useExpenses normalise api) =
     request_state.isLoading (useGetAllExpensesQuery api) \<and>
   isSuccessExpenses (useExpenses normalise api) =
     request_state.isSuccess (useGetAllExpensesQuery api) \<and>
   refetchExpenses (useExpenses normalise api) = query_result.refetch (useGetAllExpensesQuery api) \<and>
   expenses_hook.useGetExpenseById (useExpenses normalise api) i =
     \<lparr>expense = query_result.data (useGetExpenseByIdQuery api i),
      expense_by_id.isLoading = request_state.isLoading (useGetExpenseByIdQuery api i),
      expense_by_id.error = query_result.error (useGetExpenseByIdQuery api i)\<rparr> \<and>
   expenses_hook.onCreateExpense (useExpenses normalise api) d =
     (case fst (useCreateExpenseMutation api) d of
        Inl e \<Rightarrow>
          ([Request (CreateExpense d), ToastLoading ''Creando gasto...'',
            ToastError (js_error.message (normalise e))], Inl (normalise e))
      | Inr response \<Rightarrow>
          ([Request (CreateExpense d), ToastLoading ''Creando gasto...'',
            ToastSuccess (''Gasto creado con '' @ [e_acute] @ ''xito'')],
           Inr (data_response.data response))) \<and>
   expenses_hook.onUpdateExpense (useExpenses normalise api) i d =
     (case fst (useUpdateExpenseMutation api) \<lparr>id = i, body = d\<rparr> of
        Inl e \<Rightarrow>
          ([Request (UpdateExpense \<lparr>id = i, body = d\<rparr>), ToastLoading ''Actualizando gasto...'',
            ToastError (js_error.message (normalise e))], Inl (normalise e))
      | Inr response \<Rightarrow>
          ([Request (UpdateExpense \<lparr>id = i, body = d\<rparr>), ToastLoading ''Actualizando gasto...'',
            ToastSuccess ''Gasto actualizado exitosamente''],
           Inr (data_response.data response))) \<and>
   expenses_hook.onDeleteExpenses (useExpenses normalise api) idl =
     (case fst (useDeleteExpensesMutation api) \<lparr>ids = idl\<rparr> of
        Inl e \<Rightarrow>
          ([Request (DeleteExpenses \<lparr>ids = idl\<rparr>), ToastLoading ''Eliminando gastos...'',
            ToastError (js_error.message (normalise e))], Inl (normalise e))
      | Inr response \<Rightarrow>
          ([Request (DeleteExpenses \<lparr>ids = idl\<rparr>), ToastLoading ''Eliminando gastos...'',
            ToastSuccess (''Gastos eliminados con '' @ [e_acute] @ ''xito'')],
           Inr (data_response.data response))) \<and>
   expenses_hook.onImportExpenses (useExpenses normalise api) f c =
     (case fst (useImportExpensesMutation api) \<lparr>file' = f, continueOnError = (case c of None \<Rightarrow> False | Some b \<Rightarrow> b)\<rparr> of
        Inl e \<Rightarrow>
          ([Request (ImportExpenses \<lparr>file' = f, continueOnError = (case c of None \<Rightarrow> False | Some b \<Rightarrow> b)\<rparr>),
            ToastLoading ''Importando gastos...'',
            ToastError (js_error.message (normalise e))], Inl (normalise e))
      | Inr response \<Rightarrow>
          ([Request (ImportExpenses \<lparr>file' = f, continueOnError = (case c of None \<Rightarrow> False | Some b \<Rightarrow> b)\<rparr>),
            ToastLoading ''Importando gastos...'',
            ToastSuccess
              (case import_response.message response of
                 None \<Rightarrow> ''Importaci'' @ [o_acute] @ ''n completada con '' @ [e_acute] @ ''xito''
               | Some m \<Rightarrow>
                   if m = []
                   then ''Importaci'' @ [o_acute] @ ''n completada con '' @ [e_acute] @ ''xito''
                   else m)],
           Inr response)) \<and>
   expenses_hook.onDownloadTemplate (useExpenses normalise api) =
     (case fst (useLazyDownloadExpenseTemplateQuery api) of
        Inl e \<Rightarrow>
          ([ToastLoading ''Descargando plantilla...'', Request DownloadTemplate,
            ToastError (''Error al descargar: '' @ js_error.message e)], Inr False)
      | Inr blob \<Rightarrow>
          ([ToastLoading ''Descargando plantilla...'', Request DownloadTemplate,
            Browser (CreateObjectURL blob), Browser (CreateElement ''a''), Browser SetHref,
            Browser (SetDownload ''plantilla_gastos.xlsx''), Browser AppendChild,
            Browser Click, Browser RevokeObjectURL, Browser Remove,
            ToastSuccess (''Plantilla descargada con '' @ [e_acute] @ ''xito'')], Inr True))"
proof -
  have fields:
    "expenses_hook.onCreateExpense (useExpenses normalise api) = onCreateExpense normalise api"
    "expenses_hook.onUpdateExpense (useExpenses normalise api) = onUpdateExpense normalise api"
    "expenses_hook.onDeleteExpenses (useExpenses normalise api) = onDeleteExpenses normalise api"
    "expenses_hook.onImportExpenses (useExpenses normalise api) = onImportExpenses normalise api"
    "expenses_hook.onDownloadTemplate (useExpenses normalise api) = onDownloadTemplate api"
    by (simp_all add: useExpenses_def Let_def)
  have queries:
    "expensesList (useExpenses normalise api) = query_result.data (useGetAllExpensesQuery api)"
    "expensesError (useExpenses normalise api) = query_result.error (useGetAllExpensesQuery api)"
    "isLoadingExpenses (useExpenses normalise api) =
       request_state.isLoading (useGetAllExpensesQuery api)"
    "isSuccessExpenses (useExpenses normalise api) =
       request_state.isSuccess (useGetAllExpensesQuery api)"
    "refetchExpenses (useExpenses normalise api) = query_result.refetch (useGetAllExpensesQuery api)"
    "expenses_hook.useGetExpenseById (useExpenses normalise api) i =
       \<lparr>expense = query_result.data (useGetExpenseByIdQuery api i),
        expense_by_id.isLoading = request_state.isLoading (useGetExpenseByIdQuery api i),
        expense_by_id.error = query_result.error (useGetExpenseByIdQuery api i)\<rparr>"
    by (simp_all add: useExpenses_def useGetExpenseById_def Let_def)
  have import_run:
    "onImportExpenses normalise api f c =
     (case fst (useImportExpensesMutation api) \<lparr>file' = f, continueOnError = (case c of None \<Rightarrow> False | Some b \<Rightarrow> b)\<rparr> of
        Inl e \<Rightarrow>
          ([Request (ImportExpenses \<lparr>file' = f, continueOnError = (case c of None \<Rightarrow> False | Some b \<Rightarrow> b)\<rparr>),
            ToastLoading ''Importando gastos...'',
            ToastError (js_error.message (normalise e))], Inl (normalise e))
      | Inr response \<Rightarrow>
          ([Request (ImportExpenses \<lparr>file' = f, continueOnError = (case c of None \<Rightarrow> False | Some b \<Rightarrow> b)\<rparr>),
            ToastLoading ''Importando gastos...'',
            ToastSuccess
              (case import_response.message response of
                 None \<Rightarrow> ''Importaci'' @ [o_acute] @ ''n completada con '' @ [e_acute] @ ''xito''
               | Some m \<Rightarrow>
                   if m = []
                   then ''Importaci'' @ [o_acute] @ ''n completada con '' @ [e_acute] @ ''xito''
                   else m)],
           Inr response))"
    by (simp add: onImportExpenses_run js_or_def Let_def split: sum.split option.split)
  show ?thesis
    unfolding fields queries import_run
    by (simp only: onCreateExpense_run onUpdateExpense_run onDeleteExpenses_run
        onDownloadTemplate_run simp_thms)
qed

text \<open>
  C4. Every status field returned by \<^verbatim>\<open>useExpenses\<close> is the corresponding field of the
  generated hook, unchanged, and \<^verbatim>\<open>useGetExpenseById(id)\<close> returns the data, loading flag
  and error of \<^verbatim>\<open>useGetExpenseByIdQuery(id)\<close> under the names expense, isLoading, error.
\<close>

theorem useExpenses_passes_status_through:
  "expensesList (useExpenses normalise api) = query_result.data (useGetAllExpensesQuery api) \<and>
   expensesError (useExpenses normalise api) = query_result.error (useGetAllExpensesQuery api) \<and>
   isLoadingExpenses (useExpenses normalise api) =
     request_state.isLoading (useGetAllExpensesQuery api) \<and>
   isSuccessExpenses (useExpenses normalise api) =
     request_state.isSuccess (useGetAllExpensesQuery api) \<and>
   refetchExpenses (useExpenses normalise api) = query_result.refetch (useGetAllExpensesQuery api) \<and>
   isSuccessCreateExpense (useExpenses normalise api) =
     request_state.isSuccess (snd (useCreateExpenseMutation api)) \<and>
   isLoadingCreateExpense (useExpenses normalise api) =
     request_state.isLoading (snd (useCreateExpenseMutation api)) \<and>
   isSuccessUpdateExpense (useExpenses normalise api) =
     request_state.isSuccess (snd (useUpdateExpenseMutation api)) \<and>
   isLoadingUpdateExpense (useExpenses normalise api) =
     request_state.isLoading (snd (useUpdateExpenseMutation api)) \<and>
   isSuccessDeleteExpenses (useExpenses normalise api) =
     request_state.isSuccess (snd (useDeleteExpensesMutation api)) \<and>
   isLoadingDeleteExpenses (useExpenses normalise api) =
     request_state.isLoading (snd (useDeleteExpensesMutation api)) \<and>
   isSuccessImportExpenses (useExpenses normalise api) =
     request_state.isSuccess (snd (useImportExpensesMutation api)) \<and>
   isLoadingImportExpenses (useExpenses normalise api) =
     request_state.isLoading (snd (useImportExpensesMutation api)) \<and>
   isLoadingDownloadTemplate (useExpenses normalise api) =
     request_state.isLoading (snd (useLazyDownloadExpenseTemplateQuery api)) \<and>
   expenses_hook.useGetExpenseById (useExpenses normalise api) i =
     \<lparr>expense = query_result.data (useGetExpenseByIdQuery api i),
      expense_by_id.isLoading = request_state.isLoading (useGetExpenseByIdQuery api i),
      expense_by_id.error = query_result.error (useGetExpenseByIdQuery api i)\<rparr>"
  by (simp add: useExpenses_def useGetExpenseById_def Let_def)

text \<open>
  C5, as stated, fails for \<^verbatim>\<open>onImportExpenses\<close>: when the import resolves with a
  response whose message is present but empty, the success toast shows the fixed text
  of the fallback, not the response's message.
\<close>

theorem import_empty_message_counterexample:
  "fst (useImportExpensesMutation empty_message_api)
     \<lparr>file' = ''gastos.xlsx'', continueOnError = False\<rparr> =
     Inr \<lparr>import_response.message = Some [], report = 0\<rparr> \<and>
   toasts_of (fst (onImportExpenses translate empty_message_api ''gastos.xlsx'' None)) =
     [ToastLoading ''Importando gastos...'',
      ToastSuccess (''Importaci'' @ [o_acute] @ ''n completada con '' @ [e_acute] @ ''xito'')] \<and>
   toasts_of (fst (onImportExpenses translate empty_message_api ''gastos.xlsx'' None)) \<noteq>
     [ToastLoading ''Importando gastos...'', ToastSuccess []]"
  by (simp add: onImportExpenses_run toasts_of_def js_or_def empty_message_api_def
      working_api_def idle_def)

text \<open>
  C5, amended. Each of \<^verbatim>\<open>onCreateExpense\<close>, \<^verbatim>\<open>onUpdateExpense\<close>,
  \<^verbatim>\<open>onDeleteExpenses\<close> and \<^verbatim>\<open>onImportExpenses\<close> shows its fixed loading toast and then
  one terminal toast: on success the fixed success text, for the import the response's
  message, or the fixed fallback text when that message is absent or empty; on
  failure the message of the error the promise rejects with.
\<close>

theorem action_toasts:
  "toasts_of (fst (onCreateExpense normalise api d)) =
     [ToastLoading ''Creando gasto...'',
      (case fst (useCreateExpenseMutation api) d of
         Inr response \<Rightarrow> ToastSuccess (''Gasto creado con '' @ [e_acute] @ ''xito'')
       | Inl e \<Rightarrow> ToastError (js_error.message (normalise e)))] \<and>
   toasts_of (fst (onUpdateExpense normalise api i d)) =
     [ToastLoading ''Actualizando gasto...'',
      (case fst (useUpdateExpenseMutation api) \<lparr>id = i, body = d\<rparr> of
         Inr response \<Rightarrow> ToastSuccess ''Gasto actualizado exitosamente''
       | Inl e \<Rightarrow> ToastError (js_error.message (normalise e)))] \<and>
   toasts_of (fst (onDeleteExpenses normalise api idl)) =
     [ToastLoading ''Eliminando gastos...'',
      (case fst (useDeleteExpensesMutation api) \<lparr>ids = idl\<rparr> of
         Inr response \<Rightarrow> ToastSuccess (''Gastos eliminados con '' @ [e_acute] @ ''xito'')
       | Inl e \<Rightarrow> ToastError (js_error.message (normalise e)))] \<and>
   toasts_of (fst (onImportExpenses normalise api f c)) =
     [ToastLoading ''Importando gastos...'',
      (case fst (useImportExpensesMutation api)
              \<lparr>file' = f, continueOnError = (case c of None \<Rightarrow> False | Some b \<Rightarrow> b)\<rparr> of
         Inr response \<Rightarrow>
           ToastSuccess
             (case import_response.message response of
                None \<Rightarrow> ''Importaci'' @ [o_acute] @ ''n completada con '' @ [e_acute] @ ''xito''
              | Some m \<Rightarrow>
                  if m = [] then ''Importaci'' @ [o_acute] @ ''n completada con '' @ [e_acute] @ ''xito''
                  else m)
       | Inl e \<Rightarrow> ToastError (js_error.message (normalise e)))]"
  by (simp add: onCreateExpense_run onUpdateExpense_run onDeleteExpenses_run
      onImportExpenses_run toasts_of_def js_or_def Let_def split: sum.split option.split)

theorem action_toasts_witness:
  "toasts_of (fst (onCreateExpense translate working_api 5)) =
     [ToastLoading ''Creando gasto...'', ToastSuccess (''Gasto creado con '' @ [e_acute] @ ''xito'')] \<and>
   toasts_of (fst (onImportExpenses translate working_api ''gastos.xlsx'' None)) =
     [ToastLoading ''Importando gastos...'', ToastSuccess ''3 gastos importados''] \<and>
   toasts_of (fst (onUpdateExpense translate failing_api ''e1'' 5)) =
     [ToastLoading ''Actualizando gasto...'', ToastError ''Fallo: sin conexion''] \<and>
   toasts_of (fst (onDeleteExpenses translate failing_api [''e1''])) =
     [ToastLoading ''Eliminando gastos...'', ToastError ''Fallo: sin conexion'']"
  using action_toasts [where api = working_api and normalise = translate and d = 5
      and f = "''gastos.xlsx''" and c = None]
    action_toasts [where api = failing_api and normalise = translate and d = 5
      and i = "''e1''" and idl = "[''e1'']"]
  by (simp add: working_api_def failing_api_def sample_error_def translate_def)

text \<open>
  C6. Whatever the input, each mutation action hands its trigger exactly one argument,
  built from the input as given: \<^verbatim>\<open>data\<close>, \<^verbatim>\<open>{ id, body: data }\<close>, \<^verbatim>\<open>{ ids }\<close> (also
  for the empty list) and \<^verbatim>\<open>{ file, continueOnError }\<close>. The action rejects exactly when
  the underlying mutation fails, never because of the payload's content.
\<close>

theorem payloads_passed_as_given:
  "requests_of (fst (onCreateExpense normalise api d)) = [CreateExpense d] \<and>
   isl (snd (onCreateExpense normalise api d)) = isl (fst (useCreateExpenseMutation api) d) \<and>
   requests_of (fst (onUpdateExpense normalise api i d)) = [UpdateExpense \<lparr>id = i, body = d\<rparr>] \<and>
   isl (snd (onUpdateExpense normalise api i d)) =
     isl (fst (useUpdateExpenseMutation api) \<lparr>id = i, body = d\<rparr>) \<and>
   requests_of (fst (onDeleteExpenses normalise api idl)) = [DeleteExpenses \<lparr>ids = idl\<rparr>] \<and>
   isl (snd (onDeleteExpenses normalise api idl)) =
     isl (fst (useDeleteExpensesMutation api) \<lparr>ids = idl\<rparr>) \<and>
   requests_of (fst (onDeleteExpenses normalise api [])) = [DeleteExpenses \<lparr>ids = []\<rparr>] \<and>
   isl (snd (onDeleteExpenses normalise api [])) =
     isl (fst (useDeleteExpensesMutation api) \<lparr>ids = []\<rparr>) \<and>
   requests_of (fst (onImportExpenses normalise api f (Some b))) =
     [ImportExpenses \<lparr>file' = f, continueOnError = b\<rparr>] \<and>
   isl (snd (onImportExpenses normalise api f (Some b))) =
     isl (fst (useImportExpensesMutation api) \<lparr>file' = f, continueOnError = b\<rparr>)"
  by (simp add: onCreateExpense_run onUpdateExpense_run onDeleteExpenses_run
      onImportExpenses_run requests_of_def Let_def split: sum.split)

text \<open>
  C8. \<^verbatim>\<open>onDownloadTemplate\<close> never rejects: it resolves with true when the download
  succeeds and with false when it fails. The promise of each of the four mutation
  actions rejects when the underlying mutation fails.
\<close>

theorem download_never_rejects:
  "snd (onDownloadTemplate api) =
     Inr (case fst (useLazyDownloadExpenseTemplateQuery api) of
            Inr blob \<Rightarrow> True | Inl e \<Rightarrow> False) \<and>
   (fst (useCreateExpenseMutation api) d = Inl e \<longrightarrow>
      snd (onCreateExpense normalise api d) = Inl (normalise e)) \<and>
   (fst (useUpdateExpenseMutation api) \<lparr>id = i, body = d\<rparr> = Inl e \<longrightarrow>
      snd (onUpdateExpense normalise api i d) = Inl (normalise e)) \<and>
   (fst (useDeleteExpensesMutation api) \<lparr>ids = idl\<rparr> = Inl e \<longrightarrow>
      snd (onDeleteExpenses normalise api idl) = Inl (normalise e)) \<and>
   (fst (useImportExpensesMutation api)
        \<lparr>file' = f, continueOnError = (case c of None \<Rightarrow> False | Some b \<Rightarrow> b)\<rparr> = Inl e \<longrightarrow>
      snd (onImportExpenses normalise api f c) = Inl (normalise e))"
  by (simp add: onCreateExpense_run onUpdateExpense_run onDeleteExpenses_run
      onImportExpenses_run onDownloadTemplate_run Let_def split: sum.split)

theorem download_never_rejects_witness:
  "fst (useCreateExpenseMutation failing_api) 5 = Inl sample_error \<and>
   fst (useUpdateExpenseMutation failing_api) \<lparr>id = ''e1'', body = 5\<rparr> = Inl sample_error \<and>
   fst (useDeleteExpensesMutation failing_api) \<lparr>ids = [''e1'']\<rparr> = Inl sample_error \<and>
   fst (useImportExpensesMutation failing_api) \<lparr>file' = ''gastos.xlsx'', continueOnError = False\<rparr>
     = Inl sample_error \<and>
   snd (onDownloadTemplate failing_api) = Inr False \<and>
   isl (snd (onCreateExpense translate failing_api 5)) \<and>
   isl (snd (onUpdateExpense translate failing_api ''e1'' 5)) \<and>
   isl (snd (onDeleteExpenses translate failing_api [''e1''])) \<and>
   isl (snd (onImportExpenses translate failing_api ''gastos.xlsx'' None)) \<and>
   snd (onDownloadTemplate working_api) = Inr True"
  using download_never_rejects [where api = failing_api and d = 5 and e = sample_error
      and i = "''e1''" and idl = "[''e1'']" and f = "''gastos.xlsx''" and c = None
      and normalise = translate]
    download_never_rejects [where api = working_api]
  by (simp add: failing_api_def working_api_def)

text \<open>
  C9. Called with a file and no second argument, \<^verbatim>\<open>onImportExpenses\<close> hands the
  import mutation exactly one argument object, whose \<^verbatim>\<open>continueOnError\<close> is false.
\<close>

theorem onImportExpenses_default_continueOnError:
  "requests_of (fst (onImportExpenses normalise api f None)) =
     [ImportExpenses \<lparr>file' = f, continueOnError = False\<rparr>]"
  by (simp add: onImportExpenses_run requests_of_def Let_def
      split: sum.split)

text \<open>
  C10. On success \<^verbatim>\<open>onCreateExpense\<close>, \<^verbatim>\<open>onUpdateExpense\<close> and
  \<^verbatim>\<open>onDeleteExpenses\<close> resolve with the \<^verbatim>\<open>data\<close> field of the response, whereas
  \<^verbatim>\<open>onImportExpenses\<close> resolves with the whole response, message included.
\<close>

theorem resolved_values:
  "(fst (useCreateExpenseMutation api) d = Inr r1 \<longrightarrow>
      snd (onCreateExpense normalise api d) = Inr (data_response.data r1)) \<and>
   (fst (useUpdateExpenseMutation api) \<lparr>id = i, body = d\<rparr> = Inr r2 \<longrightarrow>
      snd (onUpdateExpense normalise api i d) = Inr (data_response.data r2)) \<and>
   (fst (useDeleteExpensesMutation api) \<lparr>ids = idl\<rparr> = Inr r3 \<longrightarrow>
      snd (onDeleteExpenses normalise api idl) = Inr (data_response.data r3)) \<and>
   (fst (useImportExpensesMutation api)
        \<lparr>file' = f, continueOnError = (case c of None \<Rightarrow> False | Some b \<Rightarrow> b)\<rparr> = Inr r4 \<longrightarrow>
      snd (onImportExpenses normalise api f c) = Inr r4)"
  by (simp add: onCreateExpense_run onUpdateExpense_run onDeleteExpenses_run
      onImportExpenses_run Let_def)

theorem resolved_values_witness:
  "fst (useCreateExpenseMutation working_api) 5 =
     Inr \<lparr>data_response.data = 6, envelope = 200\<rparr> \<and>
   fst (useUpdateExpenseMutation working_api) \<lparr>id = ''e1'', body = 5\<rparr> =
     Inr \<lparr>data_response.data = 5, envelope = 200\<rparr> \<and>
   fst (useDeleteExpensesMutation working_api) \<lparr>ids = [''e1'', ''e2'']\<rparr> =
     Inr \<lparr>data_response.data = 2, envelope = 200\<rparr> \<and>
   fst (useImportExpensesMutation working_api) \<lparr>file' = ''gastos.xlsx'', continueOnError = False\<rparr> =
     Inr \<lparr>import_response.message = Some ''3 gastos importados'', report = 3\<rparr> \<and>
   snd (onCreateExpense translate working_api 5) = Inr 6 \<and>
   snd (onUpdateExpense translate working_api ''e1'' 5) = Inr 5 \<and>
   snd (onDeleteExpenses translate working_api [''e1'', ''e2'']) = Inr 2 \<and>
   snd (onImportExpenses translate working_api ''gastos.xlsx'' None) =
     Inr \<lparr>import_response.message = Some ''3 gastos importados'', report = 3\<rparr>"
  using resolved_values [where api = working_api and normalise = translate and d = 5
      and i = "''e1''" and idl = "[''e1'', ''e2'']" and f = "''gastos.xlsx''" and c = None
      and ?r1.0 = "\<lparr>data_response.data = 6, envelope = 200\<rparr>"
      and ?r2.0 = "\<lparr>data_response.data = 5, envelope = 200\<rparr>"
      and ?r3.0 = "\<lparr>data_response.data = 2, envelope = 200\<rparr>"
      and ?r4.0 = "\<lparr>import_response.message = Some ''3 gastos importados'', report = 3\<rparr>"]
  by (simp add: working_api_def)

end
